theory Spec2Isabelle
  imports Main
begin

section \<open>Data model\<close>

text \<open>
  The views of \<^verbatim>\<open>news/views.py\<close> and the forms of \<^verbatim>\<open>news/forms.py\<close> work on the rows of
  \<^verbatim>\<open>news/models.py\<close>. Each row type is a record with the fields the views read or write.
  A foreign key to a user is the user's primary key; the publisher of an article is the
  publisher row the ORM loads when the view reads \<^verbatim>\<open>article.publisher\<close>
  (\<open>None\<close> for a null foreign key).
\<close>

datatype role = Reader | Journalist | Editor | PublisherRole

record user =
  user_pk :: nat
  username :: string
  email :: string
  role :: role
  is_staff :: bool

record publisher =
  pub_pk :: nat
  pub_name :: string
  owner :: "nat option"
  editors :: "nat list"
  journalists :: "nat list"

datatype status = Draft | Pending | Published | Rejected

record article =
  art_pk :: nat
  author :: nat
  art_publisher :: "publisher option"
  status :: status
  is_approved :: bool
  approved_by :: "nat option"
  title :: string
  content :: string

record newsletter =
  nl_pk :: nat
  nl_author :: nat
  nl_publisher :: "nat option"
  nl_created_at :: int
  nl_title :: string

record subscription =
  sub_user :: nat
  sub_publisher :: "nat option"
  sub_journalist :: "nat option"

record password_reset_token =
  tok_user :: nat
  tok_token :: string
  tok_is_used :: bool

record db =
  users :: "user list"
  publishers :: "publisher list"
  articles :: "article list"
  subscriptions :: "subscription list"
  newsletters :: "newsletter list"
  tokens :: "password_reset_token list"

section \<open>Requests and responses\<close>

datatype http_method = GET | POST

text \<open>\<open>req_user = None\<close> is Django's anonymous user (\<^verbatim>\<open>is_authenticated\<close> is false).\<close>

record request =
  req_user :: "user option"
  req_method :: http_method

datatype level = MsgSuccess | MsgWarning | MsgError | MsgInfo

type_synonym message = "level \<times> string"

text \<open>The error kinds of the spec (7).\<close>

datatype error =
    RoleMismatch
  | InvalidTransition
  | NoPublisherScope
  | AmbiguousTarget
  | NotOwner
  | AlreadyDecided
  | NotFound

text \<open>
  A view answers with a redirect to a named route (with its arguments), a rendered
  template with its context, the 404 of \<^verbatim>\<open>get_object_or_404\<close>, the redirect of
  \<^verbatim>\<open>login_required\<close>, an exception that no handler of the view catches, or the error
  kind with which a model method it calls fails: the view has no handler for it either,
  so nothing that follows the call in the view is run.
\<close>

datatype 'c response =
    Redirect string "nat list"
  | Render string 'c
  | Http404
  | RedirectToLogin
  | Uncaught string
  | Failed error

type_synonym 'c view_result = "'c response \<times> message list \<times> db"

section \<open>Model methods\<close>

text \<open>
  Modelled from the spec: \<^verbatim>\<open>User.is_reader\<close>, \<^verbatim>\<open>is_journalist\<close>, \<^verbatim>\<open>is_editor\<close> and
  \<^verbatim>\<open>is_publisher\<close> of \<^verbatim>\<open>news/models.py\<close>, which is not among the sources. The spec
  (4.1) gives them as pure predicates on \<^verbatim>\<open>user.role\<close>.
\<close>

definition is_reader :: "user \<Rightarrow> bool" where
  "is_reader u = (role u = Reader)"

definition is_journalist :: "user \<Rightarrow> bool" where
  "is_journalist u = (role u = Journalist)"

definition is_editor :: "user \<Rightarrow> bool" where
  "is_editor u = (role u = Editor)"

definition is_publisher :: "user \<Rightarrow> bool" where
  "is_publisher u = (role u = PublisherRole)"

text \<open>\<^verbatim>\<open>get_object_or_404(Article, pk=pk)\<close>: the row with that primary key, if any.\<close>

definition get_article :: "nat \<Rightarrow> db \<Rightarrow> article option" where
  "get_article pk d = find (\<lambda>a. art_pk a = pk) (articles d)"

text \<open>\<^verbatim>\<open>article.save()\<close> of a row that has a primary key: the row of that key is replaced.\<close>

definition Article_save :: "article \<Rightarrow> db \<Rightarrow> db" where
  "Article_save a d =
     d\<lparr>articles := map (\<lambda>x. if art_pk x = art_pk a then a else x) (articles d)\<rparr>"

text \<open>
  Modelled from the spec: the workflow methods \<^verbatim>\<open>Article.submit\<close>, \<^verbatim>\<open>Article.approve\<close> and
  \<^verbatim>\<open>Article.reject\<close> of \<^verbatim>\<open>news/models.py\<close>, which is not among the sources. Of these,
  \<^verbatim>\<open>views.py\<close> calls \<^verbatim>\<open>approve\<close> (line 404). Each gives the changed article or an error
  kind of the spec (7).

  The guard of approve and reject (4.2, 4.4): an article without a publisher is denied
  categorically with \<^verbatim>\<open>NoPublisherScope\<close>; otherwise the actor must be of role editor and a
  member of the editor set of the article's publisher. The spec names no kind for an actor
  who fails that test; \<^verbatim>\<open>RoleMismatch\<close>, its kind for a user of the wrong role, stands for it.
\<close>

definition editor_guard :: "user \<Rightarrow> article \<Rightarrow> error option" where
  "editor_guard u a =
     (case art_publisher a of
        None \<Rightarrow> Some NoPublisherScope
      | Some p \<Rightarrow>
          if is_editor u \<and> user_pk u \<in> set (editors p) then None else Some RoleMismatch)"

text \<open>
  The status a transition starts from is the one of the stored row: the spec (5) has the
  guard re-check the status immediately before the write, and fail with
  \<^verbatim>\<open>AlreadyDecided\<close> when an approval or a rejection has already landed.
\<close>

definition stored_status :: "article \<Rightarrow> db \<Rightarrow> status option" where
  "stored_status a d = map_option status (get_article (art_pk a) d)"




section \<open>Article forms\<close>

text \<open>
  \<^verbatim>\<open>ArticleApprovalForm\<close> has the fields \<^verbatim>\<open>status\<close> and \<^verbatim>\<open>is_approved\<close>. The posted status
  is \<open>None\<close> when the field is missing or is not one of the model's choices; the form is
  then invalid. The checkbox is never invalid.
\<close>

record approval_post =
  ap_status :: "status option"
  ap_is_approved :: bool


text \<open>\<^verbatim>\<open>form.save(commit=False)\<close>: the posted fields are written to the instance.\<close>

definition ArticleApprovalForm_save :: "approval_post \<Rightarrow> article \<Rightarrow> article" where
  "ArticleApprovalForm_save p a =
     (case ap_status p of
        None \<Rightarrow> a
      | Some s \<Rightarrow> a\<lparr>status := s, is_approved := ap_is_approved p\<rparr>)"

text \<open>
  \<^verbatim>\<open>ArticleForm\<close> has the fields title, content, summary, hero image, publisher and
  category; \<^verbatim>\<open>status\<close> is not among them. Whether the posted title, content, publisher and
  category pass field validation depends on the field declarations of the model, which
  are not among the sources: \<open>af_fields_ok\<close> is that outcome. \<^verbatim>\<open>clean_hero_image\<close> is
  modelled as written, on an uploaded file with an optional content type and a size.
\<close>

record uploaded_image =
  content_type :: "string option"
  size_bytes :: nat

record article_post =
  af_fields_ok :: bool
  af_title :: string
  af_content :: string
  af_publisher :: "publisher option"
  af_hero_image :: "uploaded_image option"

definition allowed_types :: "string list" where
  "allowed_types = [''image/jpeg'', ''image/png'', ''image/gif'', ''image/webp'']"

definition clean_hero_image :: "uploaded_image option \<Rightarrow> string + uploaded_image option" where
  "clean_hero_image img =
     (case img of
        None \<Rightarrow> Inr None
      | Some i \<Rightarrow>
          if (case content_type i of None \<Rightarrow> False | Some t \<Rightarrow> t \<notin> set allowed_types)
          then Inl ''Invalid image type. Use JPEG, PNG, GIF, or WebP.''
          else if size_bytes i > 5 * 1024 * 1024
          then Inl ''Image too large. Maximum size is 5 MB.''
          else Inr (Some i))"

definition ArticleForm_errors :: "article_post \<Rightarrow> string list" where
  "ArticleForm_errors p =
     (if af_fields_ok p then [] else [''fields'']) @
     (case clean_hero_image (af_hero_image p) of Inl e \<Rightarrow> [e] | Inr _ \<Rightarrow> [])"

definition ArticleForm_is_valid :: "article_post \<Rightarrow> bool" where
  "ArticleForm_is_valid p = (ArticleForm_errors p = [])"

text \<open>\<^verbatim>\<open>ArticleForm(..., instance=article).save()\<close> writes the form's fields to the row.\<close>

definition ArticleForm_apply :: "article_post \<Rightarrow> article \<Rightarrow> article" where
  "ArticleForm_apply p a =
     a\<lparr>title := af_title p, content := af_content p, art_publisher := af_publisher p\<rparr>"

section \<open>Article views\<close>

text \<open>The context of the two form pages: the form's errors and the article.\<close>

type_synonym form_page = "string list \<times> article"

text \<open>\<^verbatim>\<open>article_detail\<close> (views.py 314-326), under \<^verbatim>\<open>login_required\<close>.\<close>

definition article_detail :: "request \<Rightarrow> nat \<Rightarrow> db \<Rightarrow> article view_result" where
  "article_detail req pk d =
     (case req_user req of
        None \<Rightarrow> (RedirectToLogin, [], d)
      | Some u \<Rightarrow>
          (case get_article pk d of
             None \<Rightarrow> (Http404, [], d)
           | Some a \<Rightarrow>
               if is_reader u \<and> status a \<noteq> Published
               then (Redirect ''news:article_list'' [],
                     [(MsgError, ''This article is not published yet'')], d)
               else (Render ''news/article_detail.html'' a, [], d)))"

text \<open>
  \<^verbatim>\<open>article_list\<close> (views.py 287-311): whether an article is in the queryset the view
  paginates, for an authenticated user.
\<close>

definition article_listed :: "user \<Rightarrow> article \<Rightarrow> bool" where
  "article_listed u a =
     (if is_reader u then status a = Published
      else if is_journalist u then author a = user_pk u
      else if is_editor u then
        (case art_publisher a of None \<Rightarrow> False | Some p \<Rightarrow> user_pk u \<in> set (editors p))
        \<or> status a = Pending
      else True)"

text \<open>\<^verbatim>\<open>edit_article\<close> (views.py 352-377), under \<^verbatim>\<open>login_required\<close>.\<close>

definition edit_article :: "request \<Rightarrow> nat \<Rightarrow> article_post \<Rightarrow> db \<Rightarrow> form_page view_result" where
  "edit_article req pk post d =
     (case req_user req of
        None \<Rightarrow> (RedirectToLogin, [], d)
      | Some u \<Rightarrow>
          (case get_article pk d of
             None \<Rightarrow> (Http404, [], d)
           | Some a \<Rightarrow>
               if \<not> (user_pk u = author a \<or> is_editor u)
               then (Redirect ''news:article_list'' [],
                     [(MsgError, ''You do not have permission to edit this article'')], d)
               else if req_method req = POST then
                 (if ArticleForm_is_valid post
                  then (Redirect ''news:article_detail'' [art_pk a],
                        [(MsgSuccess, ''Article updated successfully'')],
                        Article_save (ArticleForm_apply post a) d)
                  else (Render ''news/edit_article.html'' (ArticleForm_errors post, a), [], d))
               else (Render ''news/edit_article.html'' ([], a), [], d)))"







text \<open>
  The operations that reach an article row: the views of \<^verbatim>\<open>views.py\<close> and the two
  workflow methods that have no view; and a run of them from a database state. No other
  view of the module writes to the article table.
\<close>

datatype operation =
    CreateArticle request article_post
  | EditArticle request nat article_post
  | ApproveArticle request nat approval_post
  | ViewArticle request nat
  | SubmitArticle user nat
  | RejectArticle user nat



section \<open>Subscriptions\<close>

text \<open>
  \<^verbatim>\<open>SubscriptionForm\<close> (forms.py 271-305): two optional model-choice fields. A posted
  field is \<open>None\<close> when it is empty, a primary key otherwise. A key outside the field's
  queryset (all publishers; the users of role journalist) is a field error, and the
  field is then absent from the cleaned data, so that \<^verbatim>\<open>cleaned_data.get\<close> gives none.
\<close>

record subscription_post =
  sp_publisher :: "nat option"
  sp_journalist :: "nat option"

definition get_publisher :: "nat \<Rightarrow> db \<Rightarrow> publisher option" where
  "get_publisher pk d = find (\<lambda>p. pub_pk p = pk) (publishers d)"

definition get_journalist :: "nat \<Rightarrow> db \<Rightarrow> user option" where
  "get_journalist pk d = find (\<lambda>u. user_pk u = pk) (filter (\<lambda>u. role u = Journalist) (users d))"

definition publisher_field_error :: "subscription_post \<Rightarrow> db \<Rightarrow> bool" where
  "publisher_field_error p d =
     (case sp_publisher p of None \<Rightarrow> False | Some k \<Rightarrow> get_publisher k d = None)"

definition journalist_field_error :: "subscription_post \<Rightarrow> db \<Rightarrow> bool" where
  "journalist_field_error p d =
     (case sp_journalist p of None \<Rightarrow> False | Some k \<Rightarrow> get_journalist k d = None)"

definition cleaned_publisher :: "subscription_post \<Rightarrow> db \<Rightarrow> publisher option" where
  "cleaned_publisher p d =
     (case sp_publisher p of None \<Rightarrow> None | Some k \<Rightarrow> get_publisher k d)"

definition cleaned_journalist :: "subscription_post \<Rightarrow> db \<Rightarrow> user option" where
  "cleaned_journalist p d =
     (case sp_journalist p of None \<Rightarrow> None | Some k \<Rightarrow> get_journalist k d)"

text \<open>
  Modelled from the spec: the validation of the \<^verbatim>\<open>Subscription\<close> model of
  \<^verbatim>\<open>news/models.py\<close>, which is not among the sources. \<^verbatim>\<open>SubscriptionForm\<close> is a model form,
  so \<^verbatim>\<open>is_valid\<close> runs it on the instance built from the cleaned data. The spec (3) gives
  the invariant it enforces: a subscription references exactly one of publisher and
  journalist, never both and never neither; (4.3) names the failure \<^verbatim>\<open>AmbiguousTarget\<close>.
\<close>

definition Subscription_clean :: "publisher option \<Rightarrow> user option \<Rightarrow> string list" where
  "Subscription_clean pub jour =
     (if (pub = None) = (jour = None) then [''AmbiguousTarget''] else [])"

text \<open>
  \<^verbatim>\<open>SubscriptionForm.clean\<close> raises its validation error when neither cleaned value is
  there; the form's errors are the field errors, that message and the errors of the
  model validation.
\<close>

definition SubscriptionForm_errors :: "subscription_post \<Rightarrow> db \<Rightarrow> string list" where
  "SubscriptionForm_errors p d =
     (if publisher_field_error p d then [''publisher''] else []) @
     (if journalist_field_error p d then [''journalist''] else []) @
     (if cleaned_publisher p d = None \<and> cleaned_journalist p d = None
      then [''You must subscribe to either a publisher or a journalist.'']
      else []) @
     Subscription_clean (cleaned_publisher p d) (cleaned_journalist p d)"

definition SubscriptionForm_is_valid :: "subscription_post \<Rightarrow> db \<Rightarrow> bool" where
  "SubscriptionForm_is_valid p d = (SubscriptionForm_errors p d = [])"

text \<open>
  \<^verbatim>\<open>Subscription.objects.get_or_create\<close> with the lookup \<open>(user, publisher)\<close> or
  \<open>(user, journalist)\<close>: the one matching row, or a new row with the other target null
  when none matches. More than one matching row makes \<^verbatim>\<open>get\<close> raise
  \<^verbatim>\<open>MultipleObjectsReturned\<close>. The result is the \<^verbatim>\<open>created\<close> flag and the table.
\<close>

definition get_or_create_publisher ::
  "user \<Rightarrow> publisher \<Rightarrow> subscription list \<Rightarrow> string + (bool \<times> subscription list)" where
  "get_or_create_publisher u p subs =
     (case filter (\<lambda>s. sub_user s = user_pk u \<and> sub_publisher s = Some (pub_pk p)) subs of
        [] \<Rightarrow> Inr (True, subs @ [\<lparr>sub_user = user_pk u, sub_publisher = Some (pub_pk p),
                                   sub_journalist = None\<rparr>])
      | [s] \<Rightarrow> Inr (False, subs)
      | _ \<Rightarrow> Inl ''MultipleObjectsReturned'')"

definition get_or_create_journalist ::
  "user \<Rightarrow> user \<Rightarrow> subscription list \<Rightarrow> string + (bool \<times> subscription list)" where
  "get_or_create_journalist u j subs =
     (case filter (\<lambda>s. sub_user s = user_pk u \<and> sub_journalist s = Some (user_pk j)) subs of
        [] \<Rightarrow> Inr (True, subs @ [\<lparr>sub_user = user_pk u, sub_publisher = None,
                                   sub_journalist = Some (user_pk j)\<rparr>])
      | [s] \<Rightarrow> Inr (False, subs)
      | _ \<Rightarrow> Inl ''MultipleObjectsReturned'')"

text \<open>The context of the subscription page: the form's errors and the user's rows.\<close>

type_synonym subscription_page = "string list \<times> subscription list"

definition user_subscriptions :: "user \<Rightarrow> db \<Rightarrow> subscription list" where
  "user_subscriptions u d = filter (\<lambda>s. sub_user s = user_pk u) (subscriptions d)"

text \<open>\<^verbatim>\<open>subscription_management\<close> (views.py 415-478), under \<^verbatim>\<open>login_required\<close>.\<close>

definition subscribed ::
  "string \<Rightarrow> string + (bool \<times> subscription list) \<Rightarrow> db \<Rightarrow> subscription_page view_result" where
  "subscribed name r d =
     (case r of
        Inl e \<Rightarrow> (Uncaught e, [], d)
      | Inr (created, subs) \<Rightarrow>
          (Redirect ''news:subscription_management'' [],
           [if created then (MsgSuccess, ''Successfully subscribed to '' @ name)
            else (MsgWarning, ''You are already subscribed to '' @ name)],
           d\<lparr>subscriptions := subs\<rparr>))"

definition subscription_management ::
  "request \<Rightarrow> subscription_post \<Rightarrow> db \<Rightarrow> subscription_page view_result" where
  "subscription_management req post d =
     (case req_user req of
        None \<Rightarrow> (RedirectToLogin, [], d)
      | Some u \<Rightarrow>
          if \<not> is_reader u
          then (Redirect ''news:home'' [],
                [(MsgError, ''Only readers can manage subscriptions'')], d)
          else if req_method req = POST then
            (if SubscriptionForm_is_valid post d then
               (case cleaned_publisher post d of
                  Some p \<Rightarrow>
                    subscribed (pub_name p) (get_or_create_publisher u p (subscriptions d)) d
                | None \<Rightarrow>
                    (case cleaned_journalist post d of
                       Some j \<Rightarrow>
                         subscribed (username j)
                           (get_or_create_journalist u j (subscriptions d)) d
                     | None \<Rightarrow> (Redirect ''news:subscription_management'' [], [], d)))
             else (Render ''news/subscription_management.html''
                     (SubscriptionForm_errors post d, user_subscriptions u d), [], d))
          else (Render ''news/subscription_management.html'' ([], user_subscriptions u d), [], d))"

section \<open>Newsletters\<close>

text \<open>
  \<^verbatim>\<open>order_by('-created_at')\<close>: newest first. Rows of equal time keep their table order,
  which the query leaves to the database.
\<close>

definition order_by_created_desc :: "newsletter list \<Rightarrow> newsletter list" where
  "order_by_created_desc ns = sort_key (\<lambda>n. - nl_created_at n) ns"

text \<open>
  The reader's branch of \<^verbatim>\<open>newsletter_list\<close> (views.py 503-509): the publishers and the
  journalists of the reader's subscription rows, the newsletters of either, distinct,
  newest first, at most 50.
\<close>

definition subscribed_publishers :: "user \<Rightarrow> db \<Rightarrow> nat list" where
  "subscribed_publishers u d = List.map_filter sub_publisher (user_subscriptions u d)"

definition subscribed_journalists :: "user \<Rightarrow> db \<Rightarrow> nat list" where
  "subscribed_journalists u d = List.map_filter sub_journalist (user_subscriptions u d)"

definition visible_to :: "user \<Rightarrow> db \<Rightarrow> newsletter \<Rightarrow> bool" where
  "visible_to u d n =
     ((case nl_publisher n of None \<Rightarrow> False | Some k \<Rightarrow> k \<in> set (subscribed_publishers u d))
      \<or> nl_author n \<in> set (subscribed_journalists u d))"

definition reader_newsletters :: "user \<Rightarrow> db \<Rightarrow> newsletter list" where
  "reader_newsletters u d =
     take 50 (order_by_created_desc (remdups (filter (visible_to u d) (newsletters d))))"

text \<open>\<^verbatim>\<open>newsletter_list\<close> (views.py 497-513); no decorator.\<close>

definition newsletter_list :: "request \<Rightarrow> db \<Rightarrow> (newsletter list) view_result" where
  "newsletter_list req d =
     (Render ''news/newsletter_list.html''
        (case req_user req of
           None \<Rightarrow> take 20 (order_by_created_desc (newsletters d))
         | Some u \<Rightarrow>
             if is_journalist u
             then order_by_created_desc (filter (\<lambda>n. nl_author n = user_pk u) (newsletters d))
             else if is_reader u then reader_newsletters u d
             else take 20 (order_by_created_desc (newsletters d))),
      [], d)"

text \<open>\<^verbatim>\<open>newsletter_detail\<close> (views.py 516-521); no decorator.\<close>

definition get_newsletter :: "nat \<Rightarrow> db \<Rightarrow> newsletter option" where
  "get_newsletter pk d = find (\<lambda>n. nl_pk n = pk) (newsletters d)"

definition newsletter_detail :: "request \<Rightarrow> nat \<Rightarrow> db \<Rightarrow> newsletter view_result" where
  "newsletter_detail req pk d =
     (case get_newsletter pk d of
        None \<Rightarrow> (Http404, [], d)
      | Some n \<Rightarrow> (Render ''news/newsletter_detail.html'' n, [], d))"

section \<open>Password reset request\<close>

text \<open>
  \<^verbatim>\<open>forgot_password\<close> (views.py 581-637). The posted email is \<open>None\<close> when the email field
  fails validation. \<open>tok\<close> is what \<^verbatim>\<open>secrets.token_urlsafe(32)\<close> returns; \<open>mail_error\<close> is
  the exception \<^verbatim>\<open>send_mail\<close> raises, if it raises. \<^verbatim>\<open>User.objects.get(email=email)\<close>
  raises \<^verbatim>\<open>DoesNotExist\<close>, which the view catches, when no row has the email, and
  \<^verbatim>\<open>MultipleObjectsReturned\<close>, which it does not catch, when several have it. The result
  carries the lines the view prints as a fourth component.
\<close>

record forgot_post =
  fp_email :: "string option"

definition forgot_password ::
  "request \<Rightarrow> forgot_post \<Rightarrow> string \<Rightarrow> string option \<Rightarrow> db \<Rightarrow>
     (string list) view_result \<times> string list" where
  "forgot_password req post tok mail_error d =
     (if req_method req = POST then
        (case fp_email post of
           None \<Rightarrow> ((Render ''news/forgot_password.html'' [''email''], [], d), [])
         | Some e \<Rightarrow>
             (case filter (\<lambda>u. email u = e) (users d) of
                [] \<Rightarrow>
                  ((Render ''news/forgot_password.html'' [],
                    [(MsgError, ''No account found with that email address.'')], d), [])
              | [u] \<Rightarrow>
                  ((Redirect ''news:login'' [],
                    [(MsgSuccess, ''Password reset link sent to your email.'')],
                    d\<lparr>tokens := tokens d @
                         [\<lparr>tok_user = user_pk u, tok_token = tok, tok_is_used = False\<rparr>]\<rparr>),
                   (case mail_error of
                      None \<Rightarrow> []
                    | Some x \<Rightarrow> [''Email sending failed: '' @ x]))
              | _ \<Rightarrow> ((Uncaught ''MultipleObjectsReturned'', [], d), [])))
      else ((Render ''news/forgot_password.html'' [], [], d), []))"

section \<open>Example data\<close>

text \<open>A small database on which the properties below are evaluated.\<close>

definition ex_editor :: user where
  "ex_editor = \<lparr>user_pk = 1, username = ''erin'', email = ''erin@example.org'', role = Editor, is_staff = False\<rparr>"
definition ex_journalist :: user where
  "ex_journalist = \<lparr>user_pk = 2, username = ''joe'', email = ''joe@example.org'', role = Journalist, is_staff = False\<rparr>"
definition ex_reader :: user where
  "ex_reader = \<lparr>user_pk = 3, username = ''rita'', email = ''rita@example.org'', role = Reader, is_staff = False\<rparr>"
definition ex_outsider :: user where
  "ex_outsider = \<lparr>user_pk = 4, username = ''otto'', email = ''otto@example.org'', role = Editor, is_staff = False\<rparr>"
definition ex_colleague :: user where
  "ex_colleague = \<lparr>user_pk = 5, username = ''cleo'', email = ''cleo@example.org'', role = Journalist, is_staff = False\<rparr>"
definition ex_publisher :: publisher where
  "ex_publisher = \<lparr>pub_pk = 1, pub_name = ''Acme'', owner = None, editors = [1], journalists = [2]\<rparr>"
definition ex_pending :: article where
  "ex_pending = \<lparr>art_pk = 1, author = 2, art_publisher = Some ex_publisher, status = Pending,
     is_approved = False, approved_by = None, title = ''t1'', content = ''c1''\<rparr>"
definition ex_unaffiliated :: article where
  "ex_unaffiliated = \<lparr>art_pk = 2, author = 2, art_publisher = None, status = Pending,
     is_approved = False, approved_by = None, title = ''t2'', content = ''c2''\<rparr>"
definition ex_draft :: article where
  "ex_draft = \<lparr>art_pk = 3, author = 2, art_publisher = Some ex_publisher, status = Draft,
     is_approved = False, approved_by = None, title = ''t3'', content = ''c3''\<rparr>"
definition ex_rejected :: article where
  "ex_rejected = \<lparr>art_pk = 4, author = 2, art_publisher = Some ex_publisher, status = Rejected,
     is_approved = False, approved_by = None, title = ''t4'', content = ''c4''\<rparr>"
definition ex_db :: db where
  "ex_db = \<lparr>users = [ex_editor, ex_journalist, ex_reader, ex_outsider, ex_colleague],
     publishers = [ex_publisher],
     articles = [ex_pending, ex_unaffiliated, ex_draft, ex_rejected],
     subscriptions = [], newsletters = [], tokens = []\<rparr>"
definition ex_approval :: approval_post where
  "ex_approval = \<lparr>ap_status = Some Published, ap_is_approved = True\<rparr>"

definition ex_article_post :: article_post where
  "ex_article_post = \<lparr>af_fields_ok = True, af_title = ''new title'', af_content = ''new content'',
     af_publisher = Some ex_publisher, af_hero_image = None\<rparr>"

definition ex_operations :: "operation list" where
  "ex_operations =
     [EditArticle \<lparr>req_user = Some ex_journalist, req_method = POST\<rparr> 4 ex_article_post,
      CreateArticle \<lparr>req_user = Some ex_journalist, req_method = POST\<rparr> ex_article_post,
      ApproveArticle \<lparr>req_user = Some ex_editor, req_method = POST\<rparr> 4
        \<lparr>ap_status = Some Pending, ap_is_approved = False\<rparr>,
      SubmitArticle ex_journalist 4,
      RejectArticle ex_editor 3,
      ViewArticle \<lparr>req_user = Some ex_reader, req_method = GET\<rparr> 4]"

definition ex_both :: subscription_post where
  "ex_both = \<lparr>sp_publisher = Some 1, sp_journalist = Some 2\<rparr>"
definition ex_to_publisher :: subscription_post where
  "ex_to_publisher = \<lparr>sp_publisher = Some 1, sp_journalist = None\<rparr>"
definition ex_to_journalist :: subscription_post where
  "ex_to_journalist = \<lparr>sp_publisher = None, sp_journalist = Some 2\<rparr>"

definition ex_newsletters :: "newsletter list" where
  "ex_newsletters =
     [\<lparr>nl_pk = 1, nl_author = 2, nl_publisher = Some 1, nl_created_at = 100, nl_title = ''n1''\<rparr>,
      \<lparr>nl_pk = 2, nl_author = 5, nl_publisher = None, nl_created_at = 300, nl_title = ''n2''\<rparr>,
      \<lparr>nl_pk = 3, nl_author = 5, nl_publisher = Some 1, nl_created_at = 200, nl_title = ''n3''\<rparr>,
      \<lparr>nl_pk = 4, nl_author = 2, nl_publisher = None, nl_created_at = 400, nl_title = ''n4''\<rparr>]"

definition ex_news_db :: db where
  "ex_news_db = ex_db\<lparr>subscriptions :=
       [\<lparr>sub_user = 3, sub_publisher = Some 1, sub_journalist = None\<rparr>],
     newsletters := ex_newsletters\<rparr>"

definition ex_known :: forgot_post where
  "ex_known = \<lparr>fp_email = Some ''rita@example.org''\<rparr>"
definition ex_unknown :: forgot_post where
  "ex_unknown = \<lparr>fp_email = Some ''nobody@example.org''\<rparr>"


lemmas ex_defs = ex_editor_def ex_journalist_def ex_reader_def ex_outsider_def ex_colleague_def
  ex_publisher_def ex_pending_def ex_unaffiliated_def ex_draft_def ex_rejected_def ex_db_def ex_approval_def ex_article_post_def ex_operations_def

section \<open>Lookups after a save\<close>

lemma find_pk: "find (\<lambda>x. f x = pk) xs = Some a \<Longrightarrow> f a = pk"
  by (induction xs) (auto split: if_splits)






lemma art_pk_approval_save [simp]: "art_pk (ArticleApprovalForm_save p a) = art_pk a"
  by (simp add: ArticleApprovalForm_save_def split: option.splits)

lemma art_pk_form_apply [simp]: "art_pk (ArticleForm_apply p a) = art_pk a"
  by (simp add: ArticleForm_apply_def)

lemma status_form_apply [simp]: "status (ArticleForm_apply p a) = status a"
  by (simp add: ArticleForm_apply_def)

section \<open>Workflow methods\<close>

lemma art_publisher_approval_save [simp]:
  "art_publisher (ArticleApprovalForm_save p a) = art_publisher a"
  by (simp add: ArticleApprovalForm_save_def split: option.splits)

lemma editor_guard_approval_save [simp]:
  "editor_guard u (ArticleApprovalForm_save p a) = editor_guard u a"
  by (simp add: editor_guard_def)

lemma stored_status_approval_save [simp]:
  "stored_status (ArticleApprovalForm_save p a) d = stored_status a d"
  by (simp add: stored_status_def)








section \<open>Approval of an article without a publisher\<close>



section \<open>Who may edit an article\<close>

lemma valid_ex_article_post: "ArticleForm_is_valid ex_article_post"
  by (simp add: ex_article_post_def ArticleForm_is_valid_def ArticleForm_errors_def clean_hero_image_def)

lemma get_pending: "get_article 1 ex_db = Some ex_pending"
  by (simp add: ex_defs get_article_def)

text \<open>
  C2, as stated: editing is allowed if and only if the actor is the article's author or a
  member of the editor set of the article's publisher. The view tests the actor's role,
  not the editor set, so the statement fails: on the example database an editor who is
  not in the editor set of the article's publisher, and is not its author, edits the
  article.
\<close>

theorem edit_article_scope_counterexample:
  "get_article 1 ex_db = Some ex_pending \<and>
   user_pk ex_outsider \<noteq> author ex_pending \<and>
   art_publisher ex_pending = Some ex_publisher \<and>
   user_pk ex_outsider \<notin> set (editors ex_publisher) \<and>
   fst (edit_article \<lparr>req_user = Some ex_outsider, req_method = POST\<rparr> 1 ex_article_post ex_db)
     = Redirect ''news:article_detail'' [1] \<and>
   fst (snd (edit_article \<lparr>req_user = Some ex_outsider, req_method = POST\<rparr> 1 ex_article_post ex_db))
     = [(MsgSuccess, ''Article updated successfully'')] \<and>
   map_option title (get_article 1
      (snd (snd (edit_article \<lparr>req_user = Some ex_outsider, req_method = POST\<rparr> 1 ex_article_post ex_db))))
     = Some ''new title''"
  by (simp add: ex_defs ex_article_post_def edit_article_def get_article_def is_editor_def
      ArticleForm_is_valid_def ArticleForm_errors_def clean_hero_image_def
      ArticleForm_apply_def Article_save_def)

text \<open>
  C2, amended: for every authenticated actor and every existing article,
  \<^verbatim>\<open>edit_article\<close> denies (message "You do not have permission to edit this article",
  database unchanged) if and only if the actor is neither the article's author nor of
  role editor; an editor of any publisher, or of none, is allowed.
\<close>

theorem edit_article_allowed_iff:
  assumes "req_user req = Some u" and "get_article pk d = Some a"
  shows "(edit_article req pk post d =
            (Redirect ''news:article_list'' [],
             [(MsgError, ''You do not have permission to edit this article'')], d))
         \<longleftrightarrow> \<not> (user_pk u = author a \<or> is_editor u)"
  using assms by (simp add: edit_article_def)

theorem edit_article_allowed_iff_witness:
  "req_user \<lparr>req_user = Some ex_colleague, req_method = POST\<rparr> = Some ex_colleague \<and>
   get_article 1 ex_db = Some ex_pending \<and>
   \<not> (user_pk ex_colleague = author ex_pending \<or> is_editor ex_colleague) \<and>
   edit_article \<lparr>req_user = Some ex_colleague, req_method = POST\<rparr> 1 ex_article_post ex_db =
     (Redirect ''news:article_list'' [],
      [(MsgError, ''You do not have permission to edit this article'')], ex_db)"
proof -
  have h1: "req_user \<lparr>req_user = Some ex_colleague, req_method = POST\<rparr> = Some ex_colleague"
    by simp
  have h3: "\<not> (user_pk ex_colleague = author ex_pending \<or> is_editor ex_colleague)"
    by (simp add: ex_defs is_editor_def)
  show ?thesis
    using edit_article_allowed_iff [OF h1 get_pending, of ex_article_post] h1 h3 get_pending
    by simp
qed

section \<open>Status transitions\<close>















section \<open>Approval of an article that is already decided\<close>



section \<open>Who may view an unpublished article\<close>

text \<open>
  C5, as stated: an unpublished article may be viewed if and only if the actor is its
  author, a member of the editor set of its publisher, or staff. \<^verbatim>\<open>article_detail\<close> turns
  away readers only, so the statement fails: on the example database a journalist who is
  not the author, not an editor and not staff views a draft article.
\<close>

theorem article_detail_non_author_counterexample:
  "get_article 3 ex_db = Some ex_draft \<and> status ex_draft \<noteq> Published \<and>
   user_pk ex_colleague \<noteq> author ex_draft \<and>
   art_publisher ex_draft = Some ex_publisher \<and>
   user_pk ex_colleague \<notin> set (editors ex_publisher) \<and>
   \<not> is_staff ex_colleague \<and>
   article_detail \<lparr>req_user = Some ex_colleague, req_method = GET\<rparr> 3 ex_db
     = (Render ''news/article_detail.html'' ex_draft, [], ex_db)"
  by (simp add: ex_defs article_detail_def get_article_def is_reader_def)

text \<open>
  C5, amended: for every authenticated actor and every article whose status is not
  published, \<^verbatim>\<open>article_detail\<close> shows the article if and only if the actor is not of role
  reader; a reader is redirected with the message "This article is not published yet",
  and the article is not in the reader's \<^verbatim>\<open>article_list\<close> either.
\<close>

theorem article_detail_unpublished:
  assumes "req_user req = Some u" and "get_article pk d = Some a" and "status a \<noteq> Published"
  shows "((article_detail req pk d = (Render ''news/article_detail.html'' a, [], d))
            \<longleftrightarrow> \<not> is_reader u) \<and>
         (is_reader u \<longrightarrow>
            article_detail req pk d =
              (Redirect ''news:article_list'' [],
               [(MsgError, ''This article is not published yet'')], d)) \<and>
         (is_reader u \<longrightarrow> \<not> article_listed u a)"
  using assms by (simp add: article_detail_def article_listed_def)

theorem article_detail_unpublished_witness:
  "get_article 3 ex_db = Some ex_draft \<and> status ex_draft \<noteq> Published \<and> is_reader ex_reader \<and>
   article_detail \<lparr>req_user = Some ex_reader, req_method = GET\<rparr> 3 ex_db =
     (Redirect ''news:article_list'' [],
      [(MsgError, ''This article is not published yet'')], ex_db) \<and>
   \<not> article_listed ex_reader ex_draft"
proof -
  have h1: "req_user \<lparr>req_user = Some ex_reader, req_method = GET\<rparr> = Some ex_reader" by simp
  have h2: "get_article 3 ex_db = Some ex_draft" by (simp add: ex_defs get_article_def)
  have h3: "status ex_draft \<noteq> Published" by (simp add: ex_draft_def)
  have h4: "is_reader ex_reader" by (simp add: ex_defs is_reader_def)
  show ?thesis
    using article_detail_unpublished [OF h1 h2 h3] h2 h3 h4 by simp
qed

section \<open>Subscribing with no target or with two\<close>

text \<open>
  C6: for every reader, a POST with neither a publisher nor a journalist, or with both,
  is not valid: it is answered with the form page and its errors and creates no
  subscription; with neither target, or with two valid targets, the errors hold
  \<^verbatim>\<open>AmbiguousTarget\<close>.
\<close>

theorem subscribe_ambiguous_target:
  assumes "req_user req = Some u" and "is_reader u" and "req_method req = POST"
  shows "((sp_publisher post = None \<and> sp_journalist post = None) \<or>
          (sp_publisher post \<noteq> None \<and> sp_journalist post \<noteq> None) \<longrightarrow>
            SubscriptionForm_errors post d \<noteq> [] \<and>
            subscription_management req post d =
              (Render ''news/subscription_management.html''
                 (SubscriptionForm_errors post d, user_subscriptions u d), [], d)) \<and>
         ((sp_publisher post = None \<and> sp_journalist post = None) \<or>
          (cleaned_publisher post d \<noteq> None \<and> cleaned_journalist post d \<noteq> None) \<longrightarrow>
            ''AmbiguousTarget'' \<in> set (SubscriptionForm_errors post d))"
proof -
  have inv: "(sp_publisher post = None \<and> sp_journalist post = None) \<or>
          (sp_publisher post \<noteq> None \<and> sp_journalist post \<noteq> None) \<longrightarrow>
            SubscriptionForm_errors post d \<noteq> []"
    by (auto simp: SubscriptionForm_errors_def Subscription_clean_def
        publisher_field_error_def journalist_field_error_def
        cleaned_publisher_def cleaned_journalist_def split: option.splits)
  have page: "SubscriptionForm_errors post d \<noteq> [] \<longrightarrow>
            subscription_management req post d =
              (Render ''news/subscription_management.html''
                 (SubscriptionForm_errors post d, user_subscriptions u d), [], d)"
    using assms by (simp add: subscription_management_def SubscriptionForm_is_valid_def)
  have amb: "(sp_publisher post = None \<and> sp_journalist post = None) \<or>
          (cleaned_publisher post d \<noteq> None \<and> cleaned_journalist post d \<noteq> None) \<longrightarrow>
            ''AmbiguousTarget'' \<in> set (SubscriptionForm_errors post d)"
    by (auto simp: SubscriptionForm_errors_def Subscription_clean_def
        cleaned_publisher_def cleaned_journalist_def)
  from inv page amb show ?thesis by blast
qed

theorem subscribe_ambiguous_target_witness:
  "is_reader ex_reader \<and>
   cleaned_publisher ex_both ex_db = Some ex_publisher \<and>
   cleaned_journalist ex_both ex_db = Some ex_journalist \<and>
   subscription_management \<lparr>req_user = Some ex_reader, req_method = POST\<rparr> ex_both ex_db =
     (Render ''news/subscription_management.html'' ([''AmbiguousTarget''], []), [], ex_db) \<and>
   subscription_management \<lparr>req_user = Some ex_reader, req_method = POST\<rparr>
       \<lparr>sp_publisher = None, sp_journalist = None\<rparr> ex_db =
     (Render ''news/subscription_management.html''
        ([''You must subscribe to either a publisher or a journalist.'', ''AmbiguousTarget''], []),
      [], ex_db)"
proof -
  let ?req = "\<lparr>req_user = Some ex_reader, req_method = POST\<rparr>"
  let ?none = "\<lparr>sp_publisher = None, sp_journalist = None\<rparr>"
  have h1: "req_user ?req = Some ex_reader" by simp
  have h2: "is_reader ex_reader" by (simp add: ex_defs is_reader_def)
  have h3: "req_method ?req = POST" by simp
  have h4: "cleaned_publisher ex_both ex_db = Some ex_publisher"
    by (simp add: ex_defs ex_both_def cleaned_publisher_def get_publisher_def)
  have h5: "cleaned_journalist ex_both ex_db = Some ex_journalist"
    by (simp add: ex_defs ex_both_def cleaned_journalist_def get_journalist_def)
  have h6: "sp_publisher ex_both \<noteq> None \<and> sp_journalist ex_both \<noteq> None"
    by (simp add: ex_both_def)
  have e1: "SubscriptionForm_errors ex_both ex_db = [''AmbiguousTarget'']"
    using h4 h5
    by (simp add: SubscriptionForm_errors_def Subscription_clean_def
        publisher_field_error_def journalist_field_error_def ex_both_def
        cleaned_publisher_def cleaned_journalist_def)
  have e2: "SubscriptionForm_errors ?none ex_db =
      [''You must subscribe to either a publisher or a journalist.'', ''AmbiguousTarget'']"
    by (simp add: SubscriptionForm_errors_def Subscription_clean_def
        publisher_field_error_def journalist_field_error_def
        cleaned_publisher_def cleaned_journalist_def)
  have e3: "user_subscriptions ex_reader ex_db = []"
    by (simp add: user_subscriptions_def ex_db_def)
  from subscribe_ambiguous_target [OF h1 h2 h3, of ex_both ex_db] h6
  have c1: "subscription_management ?req ex_both ex_db =
      (Render ''news/subscription_management.html''
         (SubscriptionForm_errors ex_both ex_db, user_subscriptions ex_reader ex_db), [], ex_db)"
    by blast
  from subscribe_ambiguous_target [OF h1 h2 h3, of ?none ex_db]
  have c2: "subscription_management ?req ?none ex_db =
      (Render ''news/subscription_management.html''
         (SubscriptionForm_errors ?none ex_db, user_subscriptions ex_reader ex_db), [], ex_db)"
    by simp
  from h2 h4 h5 c1 c2 e1 e2 e3 show ?thesis by simp
qed

section \<open>Subscribing twice\<close>

lemmas sub_defs = subscription_management_def SubscriptionForm_is_valid_def
  SubscriptionForm_errors_def Subscription_clean_def publisher_field_error_def
  journalist_field_error_def cleaned_publisher_def cleaned_journalist_def
  get_publisher_def get_journalist_def get_or_create_publisher_def
  get_or_create_journalist_def subscribed_def user_subscriptions_def is_reader_def

lemma filter_le1_cases:
  "length (filter P xs) \<le> 1 \<Longrightarrow> filter P xs = [] \<or> (\<exists>s. filter P xs = [s])"
  by (cases "filter P xs") (auto simp: length_Suc_conv)

lemma subscribe_publisher_valid:
  assumes "req_user req = Some u" and "is_reader u" and "req_method req = POST"
    and "sp_publisher post = Some k" and "sp_journalist post = None"
    and "get_publisher k d = Some p"
  shows "subscription_management req post d =
           subscribed (pub_name p) (get_or_create_publisher u p (subscriptions d)) d"
  using assms
  by (simp add: subscription_management_def SubscriptionForm_is_valid_def
      SubscriptionForm_errors_def publisher_field_error_def journalist_field_error_def
      cleaned_publisher_def cleaned_journalist_def Subscription_clean_def)

lemma subscribe_journalist_valid:
  assumes "req_user req = Some u" and "is_reader u" and "req_method req = POST"
    and "sp_publisher post = None" and "sp_journalist post = Some k"
    and "get_journalist k d = Some j"
  shows "subscription_management req post d =
           subscribed (username j) (get_or_create_journalist u j (subscriptions d)) d"
  using assms
  by (simp add: subscription_management_def SubscriptionForm_is_valid_def
      SubscriptionForm_errors_def publisher_field_error_def journalist_field_error_def
      cleaned_publisher_def cleaned_journalist_def Subscription_clean_def)

lemma get_publisher_subscriptions [simp]:
  "get_publisher k (d\<lparr>subscriptions := subs\<rparr>) = get_publisher k d"
  by (simp add: get_publisher_def)

lemma get_journalist_subscriptions [simp]:
  "get_journalist k (d\<lparr>subscriptions := subs\<rparr>) = get_journalist k d"
  by (simp add: get_journalist_def)

lemma subscribe_publisher_twice:
  assumes "req_user req = Some u" and "is_reader u" and "req_method req = POST"
    and "sp_publisher post = Some k" and "sp_journalist post = None"
    and "get_publisher k d = Some p"
    and "length (filter (\<lambda>s. sub_user s = user_pk u \<and> sub_publisher s = Some k)
           (subscriptions d)) \<le> 1"
  shows "length (filter (\<lambda>s. sub_user s = user_pk u \<and> sub_publisher s = Some k)
           (subscriptions (snd (snd (subscription_management req post d))))) = 1 \<and>
         subscription_management req post (snd (snd (subscription_management req post d))) =
           (Redirect ''news:subscription_management'' [],
            [(MsgWarning, ''You are already subscribed to '' @ pub_name p)],
            snd (snd (subscription_management req post d)))"
proof -
  have k: "pub_pk p = k"
    using assms(6) unfolding get_publisher_def by (rule find_pk)
  let ?key = "\<lambda>s. sub_user s = user_pk u \<and> sub_publisher s = Some k"
  let ?new = "\<lparr>sub_user = user_pk u, sub_publisher = Some k, sub_journalist = None\<rparr>"
  from filter_le1_cases [OF assms(7)]
  show ?thesis
  proof
    assume e: "filter ?key (subscriptions d) = []"
    have first: "subscription_management req post d =
        (Redirect ''news:subscription_management'' [],
         [(MsgSuccess, ''Successfully subscribed to '' @ pub_name p)],
         d\<lparr>subscriptions := subscriptions d @ [?new]\<rparr>)"
      using e k by (simp add: subscribe_publisher_valid [OF assms(1-6)]
          subscribed_def get_or_create_publisher_def)
    have g: "get_publisher k (d\<lparr>subscriptions := subscriptions d @ [?new]\<rparr>) = Some p"
      using assms(6) by simp
    have f1: "filter ?key (subscriptions (d\<lparr>subscriptions := subscriptions d @ [?new]\<rparr>)) = [?new]"
      using e by simp
    have second: "subscription_management req post (d\<lparr>subscriptions := subscriptions d @ [?new]\<rparr>) =
        (Redirect ''news:subscription_management'' [],
         [(MsgWarning, ''You are already subscribed to '' @ pub_name p)],
         d\<lparr>subscriptions := subscriptions d @ [?new]\<rparr>)"
      using f1 k by (simp add: subscribe_publisher_valid [OF assms(1-5) g]
          subscribed_def get_or_create_publisher_def)
    show ?thesis using first second f1 by simp
  next
    assume "\<exists>s. filter ?key (subscriptions d) = [s]"
    then obtain s where e: "filter ?key (subscriptions d) = [s]" ..
    have first: "subscription_management req post d =
        (Redirect ''news:subscription_management'' [],
         [(MsgWarning, ''You are already subscribed to '' @ pub_name p)], d)"
      using e k by (simp add: subscribe_publisher_valid [OF assms(1-6)]
          subscribed_def get_or_create_publisher_def)
    show ?thesis using first e by simp
  qed
qed

lemma subscribe_journalist_twice:
  assumes "req_user req = Some u" and "is_reader u" and "req_method req = POST"
    and "sp_publisher post = None" and "sp_journalist post = Some k"
    and "get_journalist k d = Some j"
    and "length (filter (\<lambda>s. sub_user s = user_pk u \<and> sub_journalist s = Some k)
           (subscriptions d)) \<le> 1"
  shows "length (filter (\<lambda>s. sub_user s = user_pk u \<and> sub_journalist s = Some k)
           (subscriptions (snd (snd (subscription_management req post d))))) = 1 \<and>
         subscription_management req post (snd (snd (subscription_management req post d))) =
           (Redirect ''news:subscription_management'' [],
            [(MsgWarning, ''You are already subscribed to '' @ username j)],
            snd (snd (subscription_management req post d)))"
proof -
  have k: "user_pk j = k"
    using assms(6) unfolding get_journalist_def by (rule find_pk)
  let ?key = "\<lambda>s. sub_user s = user_pk u \<and> sub_journalist s = Some k"
  let ?new = "\<lparr>sub_user = user_pk u, sub_publisher = None, sub_journalist = Some k\<rparr>"
  from filter_le1_cases [OF assms(7)]
  show ?thesis
  proof
    assume e: "filter ?key (subscriptions d) = []"
    have first: "subscription_management req post d =
        (Redirect ''news:subscription_management'' [],
         [(MsgSuccess, ''Successfully subscribed to '' @ username j)],
         d\<lparr>subscriptions := subscriptions d @ [?new]\<rparr>)"
      using e k by (simp add: subscribe_journalist_valid [OF assms(1-6)]
          subscribed_def get_or_create_journalist_def)
    have g: "get_journalist k (d\<lparr>subscriptions := subscriptions d @ [?new]\<rparr>) = Some j"
      using assms(6) by simp
    have f1: "filter ?key (subscriptions (d\<lparr>subscriptions := subscriptions d @ [?new]\<rparr>)) = [?new]"
      using e by simp
    have second: "subscription_management req post (d\<lparr>subscriptions := subscriptions d @ [?new]\<rparr>) =
        (Redirect ''news:subscription_management'' [],
         [(MsgWarning, ''You are already subscribed to '' @ username j)],
         d\<lparr>subscriptions := subscriptions d @ [?new]\<rparr>)"
      using f1 k by (simp add: subscribe_journalist_valid [OF assms(1-5) g]
          subscribed_def get_or_create_journalist_def)
    show ?thesis using first second f1 by simp
  next
    assume "\<exists>s. filter ?key (subscriptions d) = [s]"
    then obtain s where e: "filter ?key (subscriptions d) = [s]" ..
    have first: "subscription_management req post d =
        (Redirect ''news:subscription_management'' [],
         [(MsgWarning, ''You are already subscribed to '' @ username j)], d)"
      using e k by (simp add: subscribe_journalist_valid [OF assms(1-6)]
          subscribed_def get_or_create_journalist_def)
    show ?thesis using first e by simp
  qed
qed

text \<open>
  The view never adds a second row for a key: if every key (user, publisher) and every
  key (user, journalist) has at most one row before a request, so it has afterwards.
\<close>

lemma subscribed_db:
  "snd (snd (subscribed name r d)) =
     (case r of Inl e \<Rightarrow> d | Inr (c, subs) \<Rightarrow> d\<lparr>subscriptions := subs\<rparr>)"
  by (simp add: subscribed_def split: sum.splits prod.splits)

lemma get_or_create_publisher_cases:
  "(\<exists>e. get_or_create_publisher u p subs = Inl e) \<or>
   get_or_create_publisher u p subs = Inr (False, subs) \<or>
   (filter (\<lambda>s. sub_user s = user_pk u \<and> sub_publisher s = Some (pub_pk p)) subs = [] \<and>
    get_or_create_publisher u p subs =
      Inr (True, subs @ [\<lparr>sub_user = user_pk u, sub_publisher = Some (pub_pk p),
                          sub_journalist = None\<rparr>]))"
  by (simp add: get_or_create_publisher_def split: list.splits)

lemma get_or_create_journalist_cases:
  "(\<exists>e. get_or_create_journalist u j subs = Inl e) \<or>
   get_or_create_journalist u j subs = Inr (False, subs) \<or>
   (filter (\<lambda>s. sub_user s = user_pk u \<and> sub_journalist s = Some (user_pk j)) subs = [] \<and>
    get_or_create_journalist u j subs =
      Inr (True, subs @ [\<lparr>sub_user = user_pk u, sub_publisher = None,
                          sub_journalist = Some (user_pk j)\<rparr>]))"
  by (simp add: get_or_create_journalist_def split: list.splits)

lemma subscription_management_db_cases:
  "snd (snd (subscription_management req post d)) = d \<or>
   (\<exists>u p. snd (snd (subscription_management req post d)) =
      snd (snd (subscribed (pub_name p) (get_or_create_publisher u p (subscriptions d)) d))) \<or>
   (\<exists>u j. snd (snd (subscription_management req post d)) =
      snd (snd (subscribed (username j) (get_or_create_journalist u j (subscriptions d)) d)))"
  by (simp add: subscription_management_def split: option.splits) blast

lemma subscription_management_db:
  "snd (snd (subscription_management req post d)) = d \<or>
   (\<exists>u k. filter (\<lambda>s. sub_user s = u \<and> sub_publisher s = Some k) (subscriptions d) = [] \<and>
      snd (snd (subscription_management req post d)) =
        d\<lparr>subscriptions := subscriptions d @
             [\<lparr>sub_user = u, sub_publisher = Some k, sub_journalist = None\<rparr>]\<rparr>) \<or>
   (\<exists>u k. filter (\<lambda>s. sub_user s = u \<and> sub_journalist s = Some k) (subscriptions d) = [] \<and>
      snd (snd (subscription_management req post d)) =
        d\<lparr>subscriptions := subscriptions d @
             [\<lparr>sub_user = u, sub_publisher = None, sub_journalist = Some k\<rparr>]\<rparr>)"
proof -
  consider "snd (snd (subscription_management req post d)) = d"
    | u p where "snd (snd (subscription_management req post d)) =
        snd (snd (subscribed (pub_name p) (get_or_create_publisher u p (subscriptions d)) d))"
    | u j where "snd (snd (subscription_management req post d)) =
        snd (snd (subscribed (username j) (get_or_create_journalist u j (subscriptions d)) d))"
    using subscription_management_db_cases [of req post d] by blast
  then show ?thesis
  proof cases
    case 1
    then show ?thesis by simp
  next
    case 2
    from get_or_create_publisher_cases [of u p "subscriptions d"]
    consider e where "get_or_create_publisher u p (subscriptions d) = Inl e"
      | "get_or_create_publisher u p (subscriptions d) = Inr (False, subscriptions d)"
      | "filter (\<lambda>s. sub_user s = user_pk u \<and> sub_publisher s = Some (pub_pk p))
           (subscriptions d) = []"
        and "get_or_create_publisher u p (subscriptions d) =
           Inr (True, subscriptions d @ [\<lparr>sub_user = user_pk u,
             sub_publisher = Some (pub_pk p), sub_journalist = None\<rparr>])"
      by blast
    then show ?thesis
    proof cases
      case 1
      with 2 show ?thesis by (simp add: subscribed_db)
    next
      case 2
      with \<open>snd (snd (subscription_management req post d)) =
        snd (snd (subscribed (pub_name p) (get_or_create_publisher u p (subscriptions d)) d))\<close>
      show ?thesis by (simp add: subscribed_db)
    next
      case 3
      with 2 have "snd (snd (subscription_management req post d)) =
          d\<lparr>subscriptions := subscriptions d @ [\<lparr>sub_user = user_pk u,
             sub_publisher = Some (pub_pk p), sub_journalist = None\<rparr>]\<rparr>"
        by (simp add: subscribed_db)
      with 3(1) show ?thesis by blast
    qed
  next
    case 3
    from get_or_create_journalist_cases [of u j "subscriptions d"]
    consider e where "get_or_create_journalist u j (subscriptions d) = Inl e"
      | "get_or_create_journalist u j (subscriptions d) = Inr (False, subscriptions d)"
      | "filter (\<lambda>s. sub_user s = user_pk u \<and> sub_journalist s = Some (user_pk j))
           (subscriptions d) = []"
        and "get_or_create_journalist u j (subscriptions d) =
           Inr (True, subscriptions d @ [\<lparr>sub_user = user_pk u,
             sub_publisher = None, sub_journalist = Some (user_pk j)\<rparr>])"
      by blast
    then show ?thesis
    proof cases
      case 1
      with 3 show ?thesis by (simp add: subscribed_db)
    next
      case 2
      with \<open>snd (snd (subscription_management req post d)) =
        snd (snd (subscribed (username j) (get_or_create_journalist u j (subscriptions d)) d))\<close>
      show ?thesis by (simp add: subscribed_db)
    next
      case 3
      with \<open>snd (snd (subscription_management req post d)) =
        snd (snd (subscribed (username j) (get_or_create_journalist u j (subscriptions d)) d))\<close>
      have "snd (snd (subscription_management req post d)) =
          d\<lparr>subscriptions := subscriptions d @ [\<lparr>sub_user = user_pk u,
             sub_publisher = None, sub_journalist = Some (user_pk j)\<rparr>]\<rparr>"
        by (simp add: subscribed_db)
      with 3(1) show ?thesis by blast
    qed
  qed
qed

lemma subscription_management_keeps_keys_unique:
  assumes "\<forall>u k. length (filter (\<lambda>s. sub_user s = u \<and> sub_publisher s = Some k)
              (subscriptions d)) \<le> 1"
    and "\<forall>u k. length (filter (\<lambda>s. sub_user s = u \<and> sub_journalist s = Some k)
              (subscriptions d)) \<le> 1"
  shows "(\<forall>u k. length (filter (\<lambda>s. sub_user s = u \<and> sub_publisher s = Some k)
              (subscriptions (snd (snd (subscription_management req post d))))) \<le> 1) \<and>
         (\<forall>u k. length (filter (\<lambda>s. sub_user s = u \<and> sub_journalist s = Some k)
              (subscriptions (snd (snd (subscription_management req post d))))) \<le> 1)"
proof -
  consider "snd (snd (subscription_management req post d)) = d"
    | u k where "filter (\<lambda>s. sub_user s = u \<and> sub_publisher s = Some k) (subscriptions d) = []"
        and "snd (snd (subscription_management req post d)) =
          d\<lparr>subscriptions := subscriptions d @
             [\<lparr>sub_user = u, sub_publisher = Some k, sub_journalist = None\<rparr>]\<rparr>"
    | u k where "filter (\<lambda>s. sub_user s = u \<and> sub_journalist s = Some k) (subscriptions d) = []"
        and "snd (snd (subscription_management req post d)) =
          d\<lparr>subscriptions := subscriptions d @
             [\<lparr>sub_user = u, sub_publisher = None, sub_journalist = Some k\<rparr>]\<rparr>"
    using subscription_management_db [of req post d] by blast
  then show ?thesis
  proof cases
    case 1
    with assms show ?thesis by simp
  next
    case 2
    with assms show ?thesis by auto
  next
    case 3
    with assms show ?thesis by auto
  qed
qed

text \<open>
  C7: for every reader and every valid single target (a publisher of the publisher
  table, or a user of role journalist), on a subscription table with at most one row
  for the key (reader, target), two POSTs with the same arguments leave exactly one row
  for that key; the second POST leaves the database as the first left it and reports
  "You are already subscribed to ..." as a warning, not as an error.
\<close>

theorem subscribe_twice:
  assumes "req_user req = Some u" and "is_reader u" and "req_method req = POST"
  shows "(\<forall>k p. sp_publisher post = Some k \<and> sp_journalist post = None \<and>
            get_publisher k d = Some p \<and>
            length (filter (\<lambda>s. sub_user s = user_pk u \<and> sub_publisher s = Some k)
              (subscriptions d)) \<le> 1 \<longrightarrow>
            length (filter (\<lambda>s. sub_user s = user_pk u \<and> sub_publisher s = Some k)
              (subscriptions (snd (snd (subscription_management req post d))))) = 1 \<and>
            subscription_management req post (snd (snd (subscription_management req post d))) =
              (Redirect ''news:subscription_management'' [],
               [(MsgWarning, ''You are already subscribed to '' @ pub_name p)],
               snd (snd (subscription_management req post d)))) \<and>
         (\<forall>k j. sp_publisher post = None \<and> sp_journalist post = Some k \<and>
            get_journalist k d = Some j \<and>
            length (filter (\<lambda>s. sub_user s = user_pk u \<and> sub_journalist s = Some k)
              (subscriptions d)) \<le> 1 \<longrightarrow>
            length (filter (\<lambda>s. sub_user s = user_pk u \<and> sub_journalist s = Some k)
              (subscriptions (snd (snd (subscription_management req post d))))) = 1 \<and>
            subscription_management req post (snd (snd (subscription_management req post d))) =
              (Redirect ''news:subscription_management'' [],
               [(MsgWarning, ''You are already subscribed to '' @ username j)],
               snd (snd (subscription_management req post d))))"
  using subscribe_publisher_twice [OF assms] subscribe_journalist_twice [OF assms]
  by blast

theorem subscribe_twice_witness:
  "is_reader ex_reader \<and> get_publisher 1 ex_db = Some ex_publisher \<and>
   length (filter (\<lambda>s. sub_user s = user_pk ex_reader \<and> sub_publisher s = Some 1)
     (subscriptions ex_db)) \<le> 1 \<and>
   subscriptions (snd (snd (subscription_management
       \<lparr>req_user = Some ex_reader, req_method = POST\<rparr> ex_to_publisher ex_db)))
     = [\<lparr>sub_user = 3, sub_publisher = Some 1, sub_journalist = None\<rparr>] \<and>
   length (filter (\<lambda>s. sub_user s = user_pk ex_reader \<and> sub_publisher s = Some 1)
     (subscriptions (snd (snd (subscription_management
       \<lparr>req_user = Some ex_reader, req_method = POST\<rparr> ex_to_publisher ex_db))))) = 1 \<and>
   subscription_management \<lparr>req_user = Some ex_reader, req_method = POST\<rparr> ex_to_publisher
       (snd (snd (subscription_management
          \<lparr>req_user = Some ex_reader, req_method = POST\<rparr> ex_to_publisher ex_db))) =
     (Redirect ''news:subscription_management'' [],
      [(MsgWarning, ''You are already subscribed to '' @ pub_name ex_publisher)],
      snd (snd (subscription_management
          \<lparr>req_user = Some ex_reader, req_method = POST\<rparr> ex_to_publisher ex_db)))"
proof -
  let ?req = "\<lparr>req_user = Some ex_reader, req_method = POST\<rparr>"
  have h1: "req_user ?req = Some ex_reader" by simp
  have h2: "is_reader ex_reader" by (simp add: ex_defs is_reader_def)
  have h3: "req_method ?req = POST" by simp
  have h4: "sp_publisher ex_to_publisher = Some 1 \<and> sp_journalist ex_to_publisher = None"
    by (simp add: ex_to_publisher_def)
  have h5: "get_publisher 1 ex_db = Some ex_publisher"
    by (simp add: ex_defs get_publisher_def)
  have h6: "length (filter (\<lambda>s. sub_user s = user_pk ex_reader \<and> sub_publisher s = Some 1)
     (subscriptions ex_db)) \<le> 1"
    by (simp add: ex_db_def)
  have h7: "subscriptions (snd (snd (subscription_management ?req ex_to_publisher ex_db)))
     = [\<lparr>sub_user = 3, sub_publisher = Some 1, sub_journalist = None\<rparr>]"
    by (simp add: ex_defs ex_to_publisher_def sub_defs)
  from subscribe_twice [OF h1 h2 h3, of ex_to_publisher ex_db] h4 h5 h6
  have c: "length (filter (\<lambda>s. sub_user s = user_pk ex_reader \<and> sub_publisher s = Some 1)
     (subscriptions (snd (snd (subscription_management ?req ex_to_publisher ex_db))))) = 1 \<and>
    subscription_management ?req ex_to_publisher
       (snd (snd (subscription_management ?req ex_to_publisher ex_db))) =
     (Redirect ''news:subscription_management'' [],
      [(MsgWarning, ''You are already subscribed to '' @ pub_name ex_publisher)],
      snd (snd (subscription_management ?req ex_to_publisher ex_db)))"
    by blast
  from h2 h5 h6 h7 c show ?thesis by blast
qed

section \<open>The newsletters a reader sees\<close>

lemma in_set_map_filter:
  "y \<in> set (List.map_filter f xs) \<longleftrightarrow> (\<exists>x \<in> set xs. f x = Some y)"
  by (induction xs) (auto split: option.splits)

lemma visible_to_iff:
  "visible_to u d n \<longleftrightarrow>
     (\<exists>s \<in> set (subscriptions d). sub_user s = user_pk u \<and>
        ((nl_publisher n \<noteq> None \<and> sub_publisher s = nl_publisher n)
         \<or> sub_journalist s = Some (nl_author n)))"
  by (auto simp: visible_to_def subscribed_publishers_def subscribed_journalists_def
      user_subscriptions_def in_set_map_filter split: option.splits)

lemma set_order_by [simp]: "set (order_by_created_desc ns) = set ns"
  by (simp add: order_by_created_desc_def)

lemma distinct_order_by [simp]: "distinct (order_by_created_desc ns) = distinct ns"
  by (simp add: order_by_created_desc_def)

lemma sorted_order_by:
  "sorted_wrt (\<lambda>a b. nl_created_at b \<le> nl_created_at a) (order_by_created_desc ns)"
proof -
  have "sorted (map (\<lambda>n. - nl_created_at n) (order_by_created_desc ns))"
    by (simp add: order_by_created_desc_def)
  then show ?thesis by (simp add: sorted_map)
qed

lemma take_misses:
  assumes "sorted_wrt R xs" and "x \<in> set xs" and "x \<notin> set (take k xs)"
  shows "length (take k xs) = k \<and> (\<forall>y \<in> set (take k xs). R y x)"
proof -
  have split: "xs = take k xs @ drop k xs" by simp
  from assms(2,3) have xd: "x \<in> set (drop k xs)"
    by (metis Un_iff append_take_drop_id set_append)
  then have "drop k xs \<noteq> []" by auto
  then have len: "length (take k xs) = k" by simp
  from assms(1) have "sorted_wrt R (take k xs @ drop k xs)" by simp
  then have "\<forall>y \<in> set (take k xs). \<forall>z \<in> set (drop k xs). R y z"
    by (simp only: sorted_wrt_append) blast
  with xd len show ?thesis by blast
qed

lemma reader_newsletters_sound:
  "set (reader_newsletters u d) \<subseteq> {n \<in> set (newsletters d). visible_to u d n}"
proof -
  have "set (reader_newsletters u d)
      \<subseteq> set (order_by_created_desc (remdups (filter (visible_to u d) (newsletters d))))"
    unfolding reader_newsletters_def by (rule set_take_subset)
  then show ?thesis by auto
qed

lemma reader_newsletters_distinct: "distinct (reader_newsletters u d)"
  by (simp add: reader_newsletters_def)

lemma reader_newsletters_sorted:
  "sorted_wrt (\<lambda>a b. nl_created_at b \<le> nl_created_at a) (reader_newsletters u d)"
  unfolding reader_newsletters_def by (rule sorted_wrt_take) (rule sorted_order_by)

lemma reader_newsletters_complete:
  assumes "n \<in> set (newsletters d)" and "visible_to u d n"
    and "n \<notin> set (reader_newsletters u d)"
  shows "length (reader_newsletters u d) = 50 \<and>
         (\<forall>m \<in> set (reader_newsletters u d). nl_created_at n \<le> nl_created_at m)"
proof -
  let ?L = "order_by_created_desc (remdups (filter (visible_to u d) (newsletters d)))"
  have "n \<in> set ?L" using assms(1,2) by simp
  moreover have "n \<notin> set (take 50 ?L)" using assms(3) by (simp add: reader_newsletters_def)
  ultimately show ?thesis
    using take_misses [OF sorted_order_by, of n _ 50]
    unfolding reader_newsletters_def by blast
qed

text \<open>
  C8: for every reader, \<^verbatim>\<open>newsletter_list\<close> renders a list of newsletters of the table in
  which every newsletter has its publisher among the publishers, or its author among the
  journalists, of the reader's subscription rows; no newsletter is listed twice; the list
  is ordered by \<^verbatim>\<open>created_at\<close> descending and has at most 50 entries; and a newsletter of
  a subscribed publisher or journalist is left out only when the list is full with 50
  newsletters that are at least as recent.
\<close>

theorem reader_newsletters_resolved:
  assumes "req_user req = Some u" and "is_reader u"
  shows "fst (newsletter_list req d) =
           Render ''news/newsletter_list.html'' (reader_newsletters u d) \<and>
         (\<forall>n \<in> set (reader_newsletters u d).
            n \<in> set (newsletters d) \<and>
            (\<exists>s \<in> set (subscriptions d). sub_user s = user_pk u \<and>
               ((nl_publisher n \<noteq> None \<and> sub_publisher s = nl_publisher n)
                \<or> sub_journalist s = Some (nl_author n)))) \<and>
         distinct (reader_newsletters u d) \<and>
         sorted_wrt (\<lambda>a b. nl_created_at b \<le> nl_created_at a) (reader_newsletters u d) \<and>
         length (reader_newsletters u d) \<le> 50 \<and>
         (\<forall>n \<in> set (newsletters d).
            (\<exists>s \<in> set (subscriptions d). sub_user s = user_pk u \<and>
               ((nl_publisher n \<noteq> None \<and> sub_publisher s = nl_publisher n)
                \<or> sub_journalist s = Some (nl_author n))) \<and>
            n \<notin> set (reader_newsletters u d) \<longrightarrow>
            length (reader_newsletters u d) = 50 \<and>
            (\<forall>m \<in> set (reader_newsletters u d). nl_created_at n \<le> nl_created_at m))"
proof -
  have a: "fst (newsletter_list req d) =
           Render ''news/newsletter_list.html'' (reader_newsletters u d)"
    using assms by (simp add: newsletter_list_def is_reader_def is_journalist_def)
  have b: "\<forall>n \<in> set (reader_newsletters u d).
            n \<in> set (newsletters d) \<and>
            (\<exists>s \<in> set (subscriptions d). sub_user s = user_pk u \<and>
               ((nl_publisher n \<noteq> None \<and> sub_publisher s = nl_publisher n)
                \<or> sub_journalist s = Some (nl_author n)))"
    using reader_newsletters_sound [of u d] by (auto simp: visible_to_iff)
  have c: "length (reader_newsletters u d) \<le> 50"
    by (simp add: reader_newsletters_def)
  have e: "\<forall>n \<in> set (newsletters d).
            (\<exists>s \<in> set (subscriptions d). sub_user s = user_pk u \<and>
               ((nl_publisher n \<noteq> None \<and> sub_publisher s = nl_publisher n)
                \<or> sub_journalist s = Some (nl_author n))) \<and>
            n \<notin> set (reader_newsletters u d) \<longrightarrow>
            length (reader_newsletters u d) = 50 \<and>
            (\<forall>m \<in> set (reader_newsletters u d). nl_created_at n \<le> nl_created_at m)"
    using reader_newsletters_complete [of _ d u] by (simp only: visible_to_iff [symmetric]) blast
  from a b c e reader_newsletters_distinct [of u d] reader_newsletters_sorted [of u d]
  show ?thesis by blast
qed

theorem reader_newsletters_resolved_witness:
  "is_reader ex_reader \<and>
   fst (newsletter_list \<lparr>req_user = Some ex_reader, req_method = GET\<rparr> ex_news_db) =
     Render ''news/newsletter_list.html'' (reader_newsletters ex_reader ex_news_db) \<and>
   map nl_pk (reader_newsletters ex_reader ex_news_db) = [3, 1] \<and>
   distinct (reader_newsletters ex_reader ex_news_db) \<and>
   length (reader_newsletters ex_reader ex_news_db) \<le> 50"
proof -
  have h1: "req_user \<lparr>req_user = Some ex_reader, req_method = GET\<rparr> = Some ex_reader" by simp
  have h2: "is_reader ex_reader" by (simp add: ex_defs is_reader_def)
  have h3: "map nl_pk (reader_newsletters ex_reader ex_news_db) = [3, 1]"
    by (simp add: reader_newsletters_def order_by_created_desc_def visible_to_def
        subscribed_publishers_def subscribed_journalists_def user_subscriptions_def
        List.map_filter_def ex_news_db_def ex_newsletters_def ex_defs)
  from reader_newsletters_resolved [OF h1 h2, of ex_news_db] h2 h3
  show ?thesis by blast
qed

section \<open>A single newsletter\<close>

lemma find_distinct_key:
  "distinct (map f xs) \<Longrightarrow> x \<in> set xs \<Longrightarrow> find (\<lambda>y. f y = f x) xs = Some x"
  by (induction xs) (auto simp: image_iff)

text \<open>
  C9: for every newsletter of the table (primary keys being unique) and every request,
  whoever sends it, an anonymous visitor and a user without any subscription included,
  \<^verbatim>\<open>newsletter_detail\<close> renders that newsletter; nothing of the request is tested.
\<close>

theorem newsletter_detail_public:
  assumes "n \<in> set (newsletters d)" and "distinct (map nl_pk (newsletters d))"
  shows "newsletter_detail req (nl_pk n) d = (Render ''news/newsletter_detail.html'' n, [], d)"
  using find_distinct_key [OF assms(2,1)]
  by (simp add: newsletter_detail_def get_newsletter_def)

theorem newsletter_detail_public_witness:
  "user_subscriptions ex_outsider ex_news_db = [] \<and>
   distinct (map nl_pk (newsletters ex_news_db)) \<and>
   newsletter_detail \<lparr>req_user = None, req_method = GET\<rparr> 2 ex_news_db =
     (Render ''news/newsletter_detail.html''
        \<lparr>nl_pk = 2, nl_author = 5, nl_publisher = None, nl_created_at = 300, nl_title = ''n2''\<rparr>,
      [], ex_news_db) \<and>
   newsletter_detail \<lparr>req_user = Some ex_outsider, req_method = GET\<rparr> 2 ex_news_db =
     (Render ''news/newsletter_detail.html''
        \<lparr>nl_pk = 2, nl_author = 5, nl_publisher = None, nl_created_at = 300, nl_title = ''n2''\<rparr>,
      [], ex_news_db)"
proof -
  let ?n = "\<lparr>nl_pk = 2, nl_author = 5, nl_publisher = None, nl_created_at = 300, nl_title = ''n2''\<rparr>"
  have h1: "?n \<in> set (newsletters ex_news_db)"
    by (simp add: ex_news_db_def ex_newsletters_def)
  have h2: "distinct (map nl_pk (newsletters ex_news_db))"
    by (simp add: ex_news_db_def ex_newsletters_def)
  have h3: "user_subscriptions ex_outsider ex_news_db = []"
    by (simp add: user_subscriptions_def ex_news_db_def ex_defs)
  from newsletter_detail_public [OF h1 h2, of "\<lparr>req_user = None, req_method = GET\<rparr>"]
    newsletter_detail_public [OF h1 h2, of "\<lparr>req_user = Some ex_outsider, req_method = GET\<rparr>"]
    h2 h3
  show ?thesis by simp
qed

section \<open>What a password reset request reveals\<close>

lemma forgot_password_unknown:
  assumes "req_method req = POST" and "fp_email post = Some e"
    and "filter (\<lambda>u. email u = e) (users d) = []"
  shows "forgot_password req post tok mail_error d =
           ((Render ''news/forgot_password.html'' [],
             [(MsgError, ''No account found with that email address.'')], d), [])"
  using assms by (simp add: forgot_password_def)

lemma forgot_password_known:
  assumes "req_method req = POST" and "fp_email post = Some e"
    and "filter (\<lambda>u. email u = e) (users d) = [u]"
  shows "fst (forgot_password req post tok mail_error d) =
           (Redirect ''news:login'' [],
            [(MsgSuccess, ''Password reset link sent to your email.'')],
            d\<lparr>tokens := tokens d @
                 [\<lparr>tok_user = user_pk u, tok_token = tok, tok_is_used = False\<rparr>]\<rparr>)"
  using assms by (simp add: forgot_password_def)

lemma forgot_password_existing_response:
  assumes "req_method req = POST" and "fp_email post = Some e"
    and "filter (\<lambda>u. email u = e) (users d) \<noteq> []"
  shows "fst (fst (forgot_password req post tok mail_error d)) = Redirect ''news:login'' []
       \<or> fst (fst (forgot_password req post tok mail_error d)) = Uncaught ''MultipleObjectsReturned''"
  using assms by (simp add: forgot_password_def split: list.splits)

text \<open>
  C10: for a POST with a well-formed email, \<^verbatim>\<open>forgot_password\<close> answers an email of no
  account with the error "No account found with that email address." and creates no
  token; it answers the email of an account with a redirect, the success message and a
  new unused token for that account, whether or not sending the mail fails; and the
  response to an email of no account differs from the response to an email of some
  account, so the response tells whether the account exists.
\<close>

theorem forgot_password_reveals_account:
  assumes "req_method req = POST" and "fp_email post = Some e"
  shows "(filter (\<lambda>u. email u = e) (users d) = [] \<longrightarrow>
            forgot_password req post tok mail_error d =
              ((Render ''news/forgot_password.html'' [],
                [(MsgError, ''No account found with that email address.'')], d), [])) \<and>
         (\<forall>u. filter (\<lambda>u. email u = e) (users d) = [u] \<longrightarrow>
            fst (forgot_password req post tok mail_error d) =
              (Redirect ''news:login'' [],
               [(MsgSuccess, ''Password reset link sent to your email.'')],
               d\<lparr>tokens := tokens d @
                    [\<lparr>tok_user = user_pk u, tok_token = tok, tok_is_used = False\<rparr>]\<rparr>)) \<and>
         (\<forall>post' e'. fp_email post' = Some e' \<and>
            filter (\<lambda>u. email u = e) (users d) = [] \<and>
            filter (\<lambda>u. email u = e') (users d) \<noteq> [] \<longrightarrow>
            fst (fst (forgot_password req post tok mail_error d)) \<noteq>
            fst (fst (forgot_password req post' tok mail_error d)))"
proof (intro conjI allI impI)
  assume "filter (\<lambda>u. email u = e) (users d) = []"
  then show "forgot_password req post tok mail_error d =
      ((Render ''news/forgot_password.html'' [],
        [(MsgError, ''No account found with that email address.'')], d), [])"
    by (rule forgot_password_unknown [OF assms])
next
  fix u assume "filter (\<lambda>u. email u = e) (users d) = [u]"
  then show "fst (forgot_password req post tok mail_error d) =
      (Redirect ''news:login'' [],
       [(MsgSuccess, ''Password reset link sent to your email.'')],
       d\<lparr>tokens := tokens d @
            [\<lparr>tok_user = user_pk u, tok_token = tok, tok_is_used = False\<rparr>]\<rparr>)"
    by (rule forgot_password_known [OF assms])
next
  fix post' :: forgot_post and e' :: string
  assume h: "fp_email post' = Some e' \<and>
            filter (\<lambda>u. email u = e) (users d) = [] \<and>
            filter (\<lambda>u. email u = e') (users d) \<noteq> []"
  have l: "fst (fst (forgot_password req post tok mail_error d))
      = Render ''news/forgot_password.html'' []"
    using h by (simp add: forgot_password_unknown [OF assms])
  from h forgot_password_existing_response [OF assms(1), of post' e' d tok mail_error]
  have "fst (fst (forgot_password req post' tok mail_error d)) = Redirect ''news:login'' []
       \<or> fst (fst (forgot_password req post' tok mail_error d)) = Uncaught ''MultipleObjectsReturned''"
    by blast
  with l show "fst (fst (forgot_password req post tok mail_error d)) \<noteq>
            fst (fst (forgot_password req post' tok mail_error d))"
    by auto
qed

theorem forgot_password_reveals_account_witness:
  "filter (\<lambda>u. email u = ''nobody@example.org'') (users ex_db) = [] \<and>
   filter (\<lambda>u. email u = ''rita@example.org'') (users ex_db) = [ex_reader] \<and>
   forgot_password \<lparr>req_user = None, req_method = POST\<rparr> ex_unknown ''t0k3n'' (Some ''refused'') ex_db =
     ((Render ''news/forgot_password.html'' [],
       [(MsgError, ''No account found with that email address.'')], ex_db), []) \<and>
   fst (forgot_password \<lparr>req_user = None, req_method = POST\<rparr> ex_known ''t0k3n'' (Some ''refused'') ex_db) =
     (Redirect ''news:login'' [],
      [(MsgSuccess, ''Password reset link sent to your email.'')],
      ex_db\<lparr>tokens := tokens ex_db @
         [\<lparr>tok_user = user_pk ex_reader, tok_token = ''t0k3n'', tok_is_used = False\<rparr>]\<rparr>) \<and>
   fst (fst (forgot_password \<lparr>req_user = None, req_method = POST\<rparr> ex_unknown ''t0k3n'' (Some ''refused'') ex_db)) \<noteq>
   fst (fst (forgot_password \<lparr>req_user = None, req_method = POST\<rparr> ex_known ''t0k3n'' (Some ''refused'') ex_db))"
proof -
  let ?req = "\<lparr>req_user = None, req_method = POST\<rparr>"
  have h1: "req_method ?req = POST" by simp
  have h2: "fp_email ex_unknown = Some ''nobody@example.org''" by (simp add: ex_unknown_def)
  have h3: "fp_email ex_known = Some ''rita@example.org''" by (simp add: ex_known_def)
  have h4: "filter (\<lambda>u. email u = ''nobody@example.org'') (users ex_db) = []"
    by (simp add: ex_defs)
  have h5: "filter (\<lambda>u. email u = ''rita@example.org'') (users ex_db) = [ex_reader]"
    by (simp add: ex_defs)
  have h6: "filter (\<lambda>u. email u = ''rita@example.org'') (users ex_db) \<noteq> []"
    using h5 by simp
  from forgot_password_reveals_account [OF h1 h2, of ex_db "''t0k3n''" "Some ''refused''"] h3 h4 h6
  have a: "forgot_password ?req ex_unknown ''t0k3n'' (Some ''refused'') ex_db =
     ((Render ''news/forgot_password.html'' [],
       [(MsgError, ''No account found with that email address.'')], ex_db), []) \<and>
     fst (fst (forgot_password ?req ex_unknown ''t0k3n'' (Some ''refused'') ex_db)) \<noteq>
     fst (fst (forgot_password ?req ex_known ''t0k3n'' (Some ''refused'') ex_db))"
    by blast
  from forgot_password_reveals_account [OF h1 h3, of ex_db "''t0k3n''" "Some ''refused''"] h5
  have b: "fst (forgot_password ?req ex_known ''t0k3n'' (Some ''refused'') ex_db) =
     (Redirect ''news:login'' [],
      [(MsgSuccess, ''Password reset link sent to your email.'')],
      ex_db\<lparr>tokens := tokens ex_db @
         [\<lparr>tok_user = user_pk ex_reader, tok_token = ''t0k3n'', tok_is_used = False\<rparr>]\<rparr>)"
    by blast
  from a b h4 h5 show ?thesis by blast
qed

end
